theory Spec2Isabelle
  imports Complex_Main "HOL-Library.Multiset"
begin

section \<open>Python values and errors\<close>

text \<open>
  The scores of the repository are Python floats.  The functions are modelled twice: over
  \<^typ>\<open>real\<close>, in exact arithmetic without rounding, overflow, infinities or NaN; and, for
  the two statistics, over floats as the program computes them (the definitions whose
  names end in \<open>_float\<close>).  A statement about a definition over the reals is a statement
  about exact arithmetic.  Exceptions are values: a function that can raise returns \<open>error + 'a\<close>, with \<open>Inl\<close> the
  exception.
\<close>

datatype error = StatisticsError | ZeroDivisionError | TypeError | OverflowError

text \<open>\<open>a / b\<close> on numbers: raises \<open>ZeroDivisionError\<close> when the divisor is zero.\<close>

definition py_div :: "real \<Rightarrow> real \<Rightarrow> error + real" where
  "py_div a b = (if b = 0 then Inl ZeroDivisionError else Inr (a / b))"

text \<open>\<open>statistics.mean\<close>: raises \<open>StatisticsError\<close> on empty data.\<close>

definition mean :: "real list \<Rightarrow> error + real" where
  "mean xs = (if xs = [] then Inl StatisticsError
              else Inr (sum_list xs / real (length xs)))"

section \<open>liwc\_Anova\_results\_table.py: the statistics\<close>

text \<open>
  The first loop of \<open>calculate_f_statistic\<close> and of \<open>calculate_eta_squared\<close>:
  \<^verbatim>\<open>
    for group in groups:
        if len(group) > 0:
            group_means.append(statistics.mean(group))
            group_sizes.append(len(group))
            all_values.extend(group)
  \<close>
  The accumulator is \<open>(group_means, group_sizes, all_values)\<close>.
\<close>

fun collect_groups ::
  "real list list \<Rightarrow> real list \<times> nat list \<times> real list \<Rightarrow>
     error + (real list \<times> nat list \<times> real list)" where
  "collect_groups [] acc = Inr acc"
| "collect_groups (grp # groups) (group_means, group_sizes, all_values) =
     (if length grp > 0 then
        (case mean grp of
           Inl e \<Rightarrow> Inl e
         | Inr m \<Rightarrow>
             collect_groups groups
               (group_means @ [m], group_sizes @ [length grp], all_values @ grp))
      else collect_groups groups (group_means, group_sizes, all_values))"

text \<open>
  \<^verbatim>\<open>sum(n * (mean - grand_mean) ** 2 for mean, n in zip(group_means, group_sizes))\<close>
\<close>

definition between_sum :: "real list \<Rightarrow> nat list \<Rightarrow> real \<Rightarrow> real" where
  "between_sum group_means group_sizes grand_mean =
     sum_list (map (\<lambda>(m, n). real n * (m - grand_mean)\<^sup>2) (zip group_means group_sizes))"

text \<open>
  The within-groups loop:
  \<^verbatim>\<open>
    ssw = 0
    for group in groups:
        if len(group) > 1:
            group_mean = statistics.mean(group)
            ssw += sum((x - group_mean) ** 2 for x in group)
  \<close>
\<close>

fun ssw_loop :: "real list list \<Rightarrow> real \<Rightarrow> error + real" where
  "ssw_loop [] ssw = Inr ssw"
| "ssw_loop (grp # groups) ssw =
     (if length grp > 1 then
        (case mean grp of
           Inl e \<Rightarrow> Inl e
         | Inr group_mean \<Rightarrow>
             ssw_loop groups (ssw + sum_list (map (\<lambda>x. (x - group_mean)\<^sup>2) grp)))
      else ssw_loop groups ssw)"

text \<open>The bucket thresholds at the end of \<open>calculate_f_statistic\<close>.\<close>

definition p_bucket :: "real \<Rightarrow> real" where
  "p_bucket f_stat =
     (if f_stat > 7.0 then 0.001
      else if f_stat > 4.0 then 0.01
      else if f_stat > 2.5 then 0.05
      else 0.1)"

text \<open>
  The part of \<open>calculate_f_statistic\<close> after the sums of squares: degrees of freedom,
  mean squares, F and its bucket.  \<open>n_groups\<close> is \<open>len(groups)\<close> and \<open>n_values\<close> is
  \<open>len(all_values)\<close>; the degrees of freedom are Python ints and can be negative.
\<close>

definition f_from_sums :: "real \<Rightarrow> real \<Rightarrow> nat \<Rightarrow> nat \<Rightarrow> error + (real \<times> real)" where
  "f_from_sums ssb ssw n_groups n_values =
     (let df_between = int n_groups - 1;
          df_within = int n_values - int n_groups
      in if df_between = 0 \<or> df_within = 0 then Inr (0, 1)
         else
           (case py_div ssb (of_int df_between) of
              Inl e \<Rightarrow> Inl e
            | Inr msb \<Rightarrow>
                (case (if df_within > 0 then py_div ssw (of_int df_within) else Inr 1) of
                   Inl e \<Rightarrow> Inl e
                 | Inr msw \<Rightarrow>
                     (case (if msw > 0 then py_div msb msw else Inr 0) of
                        Inl e \<Rightarrow> Inl e
                      | Inr f_stat \<Rightarrow> Inr (f_stat, p_bucket f_stat)))))"

definition calculate_f_statistic :: "real list list \<Rightarrow> error + (real \<times> real)" where
  "calculate_f_statistic groups =
     (if length groups < 2 then Inr (0, 1)
      else
        (case collect_groups groups ([], [], []) of
           Inl e \<Rightarrow> Inl e
         | Inr (group_means, group_sizes, all_values) \<Rightarrow>
             if length all_values < 2 then Inr (0, 1)
             else
               (case mean all_values of
                  Inl e \<Rightarrow> Inl e
                | Inr grand_mean \<Rightarrow>
                    (let ssb = between_sum group_means group_sizes grand_mean
                     in case ssw_loop groups 0 of
                          Inl e \<Rightarrow> Inl e
                        | Inr ssw \<Rightarrow>
                            f_from_sums ssb ssw (length groups) (length all_values)))))"

definition calculate_eta_squared :: "real list list \<Rightarrow> error + real" where
  "calculate_eta_squared groups =
     (case collect_groups groups ([], [], []) of
        Inl e \<Rightarrow> Inl e
      | Inr (group_means, group_sizes, all_values) \<Rightarrow>
          if length all_values < 2 then Inr 0
          else
            (case mean all_values of
               Inl e \<Rightarrow> Inl e
             | Inr grand_mean \<Rightarrow>
                 (let total_ss = sum_list (map (\<lambda>x. (x - grand_mean)\<^sup>2) all_values);
                      between_ss = between_sum group_means group_sizes grand_mean
                  in if total_ss > 0 then py_div between_ss total_ss else Inr 0)))"

section \<open>The quantities of the specification\<close>

text \<open>
  The sums of squares as the specification words them, over the groups themselves.  They
  are compared with what the code computes.
\<close>

definition avg :: "real list \<Rightarrow> real" where
  "avg xs = sum_list xs / real (length xs)"

definition nonempty_groups :: "real list list \<Rightarrow> real list list" where
  "nonempty_groups groups = filter (\<lambda>g. g \<noteq> []) groups"

definition grand_mean_of :: "real list list \<Rightarrow> real" where
  "grand_mean_of groups = avg (concat groups)"

definition SSB :: "real list list \<Rightarrow> real" where
  "SSB groups =
     sum_list (map (\<lambda>g. real (length g) * (avg g - grand_mean_of groups)\<^sup>2)
                   (nonempty_groups groups))"

definition SSW :: "real list list \<Rightarrow> real" where
  "SSW groups = sum_list (map (\<lambda>g. sum_list (map (\<lambda>x. (x - avg g)\<^sup>2) g)) groups)"

definition SST :: "real list list \<Rightarrow> real" where
  "SST groups = sum_list (map (\<lambda>x. (x - grand_mean_of groups)\<^sup>2) (concat groups))"

section \<open>liwc\_Anova\_results\_table.py: loading the rows\<close>

text \<open>
  A value of a row dictionary: a string as the CSV reader yields it, \<open>None\<close>, or the float
  that \<open>load_data\<close> stores.
\<close>

datatype pyval = PStr string | PNone | PFloat real

text \<open>
  \<open>csv.DictReader\<close> turns each line (a list of fields) into the dictionary that maps the
  field names of the header to the fields.  A line with fewer fields than the header gets
  \<open>None\<close> (the default \<open>restval\<close>) for the missing ones; an empty line is skipped.  A line
  with more fields than the header keeps the surplus under the key \<open>None\<close>, which no code
  here reads and the model leaves out.
\<close>

definition dict_row :: "string list \<Rightarrow> string list \<Rightarrow> (string \<rightharpoonup> pyval)" where
  "dict_row fieldnames line =
     fold (\<lambda>(k, v) d. d(k \<mapsto> v))
          (zip fieldnames
               (map PStr line @ replicate (length fieldnames - length line) PNone))
          Map.empty"

definition dict_reader :: "string list \<Rightarrow> string list list \<Rightarrow> (string \<rightharpoonup> pyval) list" where
  "dict_reader fieldnames lines = map (dict_row fieldnames) (filter (\<lambda>l. l \<noteq> []) lines)"

text \<open>
  The loop of \<open>load_data\<close>:
  \<^verbatim>\<open>
    for row in reader:
        try:
            row['empathy_score'] = float(row['empathy_score'])
            data.append(row)
        except (ValueError, KeyError):
            continue
  \<close>
  \<open>float_of_str\<close> is Python's \<open>float\<close> on a string, \<open>None\<close> where it raises \<open>ValueError\<close>.
  A missing key raises \<open>KeyError\<close> and a string that does not parse \<open>ValueError\<close>, both
  caught; \<open>float(None)\<close> raises \<open>TypeError\<close>, which the \<open>except\<close> clause does not catch.
\<close>

fun load_rows ::
  "(string \<Rightarrow> real option) \<Rightarrow> (string \<rightharpoonup> pyval) list \<Rightarrow> (string \<rightharpoonup> pyval) list \<Rightarrow>
     error + (string \<rightharpoonup> pyval) list" where
  "load_rows float_of_str [] data = Inr data"
| "load_rows float_of_str (row # reader) data =
     (case row ''empathy_score'' of
        None \<Rightarrow> load_rows float_of_str reader data
      | Some PNone \<Rightarrow> Inl TypeError
      | Some (PFloat x) \<Rightarrow>
          load_rows float_of_str reader (data @ [row(''empathy_score'' \<mapsto> PFloat x)])
      | Some (PStr s) \<Rightarrow>
          (case float_of_str s of
             None \<Rightarrow> load_rows float_of_str reader data
           | Some x \<Rightarrow>
               load_rows float_of_str reader (data @ [row(''empathy_score'' \<mapsto> PFloat x)])))"

text \<open>
  \<open>load_data\<close> on the contents of the CSV file: the header and the lines after it, each a
  list of fields.
\<close>

definition load_data ::
  "(string \<Rightarrow> real option) \<Rightarrow> string list \<Rightarrow> string list list \<Rightarrow>
     error + (string \<rightharpoonup> pyval) list" where
  "load_data float_of_str fieldnames lines =
     load_rows float_of_str (dict_reader fieldnames lines) []"

section \<open>liwc\_Anova\_results\_table.py: the analysis\<close>

text \<open>
  A loaded row, with the four columns \<open>analyze_data\<close> reads.  The three labels are strings
  and the score is the float stored by \<open>load_data\<close>.
\<close>

record data_row =
  empathy_type :: string
  attribute_type :: string
  attribute_value :: string
  empathy_score :: real

record group_stat =
  stat_n :: nat
  stat_mean :: real
  stat_std :: real

text \<open>
  A result record.  \<open>Group_Details\<close> holds the per-group statistics that the source
  formats into one string.
\<close>

record anova_result =
  Empathy_Type :: string
  Attribute_Type :: string
  F_Statistic :: real
  p_Value :: real
  Significance :: string
  Sig_Level :: string
  Eta_Squared :: real
  Effect_Size :: string
  Total_N :: nat
  Overall_Mean :: real
  Overall_Std :: real
  Groups :: nat
  Group_Details :: "(string \<times> group_stat) list"

text \<open>\<open>statistics.stdev\<close>: the sample standard deviation, an error below two points.\<close>

definition stdev :: "real list \<Rightarrow> error + real" where
  "stdev xs =
     (if length xs < 2 then Inl StatisticsError
      else (let m = sum_list xs / real (length xs)
            in Inr (sqrt (sum_list (map (\<lambda>x. (x - m)\<^sup>2) xs) / real (length xs - 1)))))"

text \<open>\<open>round(x, ndigits)\<close>, in exact arithmetic: to the nearest multiple, ties to even.\<close>

definition round_half_even :: "real \<Rightarrow> int" where
  "round_half_even x =
     (let f = \<lfloor>x\<rfloor>; d = x - of_int f
      in if d < 1/2 then f else if d > 1/2 then f + 1 else if even f then f else f + 1)"

definition py_round :: "real \<Rightarrow> nat \<Rightarrow> real" where
  "py_round x ndigits = of_int (round_half_even (x * 10 ^ ndigits)) / 10 ^ ndigits"

text \<open>
  \<open>str.title()\<close> on ASCII letters: the first letter of every run of letters in upper case,
  the others in lower case.  Bytes outside \<open>A-Z\<close> and \<open>a-z\<close> count as uncased.
\<close>

definition is_lower :: "char \<Rightarrow> bool" where
  "is_lower c = (97 \<le> (of_char c :: nat) \<and> (of_char c :: nat) \<le> 122)"

definition is_upper :: "char \<Rightarrow> bool" where
  "is_upper c = (65 \<le> (of_char c :: nat) \<and> (of_char c :: nat) \<le> 90)"

definition to_upper :: "char \<Rightarrow> char" where
  "to_upper c = (if is_lower c then char_of ((of_char c :: nat) - 32) else c)"

definition to_lower :: "char \<Rightarrow> char" where
  "to_lower c = (if is_upper c then char_of ((of_char c :: nat) + 32) else c)"

fun title_from :: "bool \<Rightarrow> string \<Rightarrow> string" where
  "title_from previous_is_cased [] = []"
| "title_from previous_is_cased (c # cs) =
     (if is_lower c \<or> is_upper c then
        (if previous_is_cased then to_lower c else to_upper c) # title_from True cs
      else c # title_from False cs)"

definition title :: "string \<Rightarrow> string" where
  "title s = title_from False s"

text \<open>
  \<open>groups_dict[row['attribute_value']].append(row['empathy_score'])\<close> on a
  \<open>defaultdict(list)\<close>: the dictionary keeps its keys in the order of their first insertion.
\<close>

fun groups_append :: "(string \<times> real list) list \<Rightarrow> string \<Rightarrow> real \<Rightarrow> (string \<times> real list) list" where
  "groups_append [] k v = [(k, [v])]"
| "groups_append ((k', vs) # d) k v =
     (if k' = k then (k', vs @ [v]) # d else (k', vs) # groups_append d k v)"

definition build_groups_dict :: "data_row list \<Rightarrow> (string \<times> real list) list" where
  "build_groups_dict attr_data =
     fold (\<lambda>row d. groups_append d (attribute_value row) (empathy_score row)) attr_data []"

text \<open>
  \<^verbatim>\<open>
    for attr_value, group in groups_dict.items():
        if len(group) > 0:
            group_stats[attr_value] = {
                'n': len(group),
                'mean': statistics.mean(group),
                'std': statistics.stdev(group) if len(group) > 1 else 0 }
  \<close>
\<close>

fun group_stats_loop ::
  "(string \<times> real list) list \<Rightarrow> (string \<times> group_stat) list \<Rightarrow>
     error + (string \<times> group_stat) list" where
  "group_stats_loop [] group_stats = Inr group_stats"
| "group_stats_loop ((attr_value, grp) # items) group_stats =
     (if length grp > 0 then
        (case mean grp of
           Inl e \<Rightarrow> Inl e
         | Inr m \<Rightarrow>
             (case (if length grp > 1 then stdev grp else Inr 0) of
                Inl e \<Rightarrow> Inl e
              | Inr s \<Rightarrow>
                  group_stats_loop items
                    (group_stats @ [(attr_value, \<lparr>stat_n = length grp, stat_mean = m, stat_std = s\<rparr>)])))
      else group_stats_loop items group_stats)"

text \<open>The significance marker and its label, from the p-value.\<close>

definition significance_of :: "real \<Rightarrow> string \<times> string" where
  "significance_of p_value =
     (if p_value < 0.001 then (''***'', ''p < 0.001'')
      else if p_value < 0.01 then (''**'', ''p < 0.01'')
      else if p_value < 0.05 then (''*'', ''p < 0.05'')
      else (''ns'', ''p '' @ [CHR 0xE2, CHR 0x89, CHR 0xA5] @ '' 0.05''))"

definition effect_size_of :: "real \<Rightarrow> string" where
  "effect_size_of eta_squared =
     (if eta_squared \<ge> 0.14 then ''Large''
      else if eta_squared \<ge> 0.06 then ''Medium''
      else ''Small'')"

text \<open>
  The body of the inner loop of \<open>analyze_data\<close>, for one empathy type and one attribute
  type: the records it appends to \<open>results\<close> (none or one).
\<close>

definition analyze_pair :: "string \<Rightarrow> string \<Rightarrow> data_row list \<Rightarrow> error + anova_result list" where
  "analyze_pair et attr_type empathy_data =
     (let attr_data = filter (\<lambda>row. attribute_type row = attr_type) empathy_data
      in if length attr_data > 0 then
           (let groups_dict = build_groups_dict attr_data;
                groups = filter (\<lambda>g. length g > 0) (map snd groups_dict)
            in if length groups \<ge> 2 then
                 (case calculate_f_statistic groups of
                    Inl e \<Rightarrow> Inl e
                  | Inr (f_stat, p_value) \<Rightarrow>
                 (case calculate_eta_squared groups of
                    Inl e \<Rightarrow> Inl e
                  | Inr eta_squared \<Rightarrow>
                 (case group_stats_loop groups_dict [] of
                    Inl e \<Rightarrow> Inl e
                  | Inr group_stats \<Rightarrow>
                 (let all_scores = map empathy_score attr_data;
                      total_n = length all_scores
                  in case mean all_scores of
                       Inl e \<Rightarrow> Inl e
                     | Inr overall_mean \<Rightarrow>
                 (case (if length all_scores > 1 then stdev all_scores else Inr 0) of
                    Inl e \<Rightarrow> Inl e
                  | Inr overall_std \<Rightarrow>
                      Inr [\<lparr>Empathy_Type = title et,
                            Attribute_Type = title attr_type,
                            F_Statistic = py_round f_stat 3,
                            p_Value = py_round p_value 4,
                            Significance = fst (significance_of p_value),
                            Sig_Level = snd (significance_of p_value),
                            Eta_Squared = py_round eta_squared 3,
                            Effect_Size = effect_size_of eta_squared,
                            Total_N = total_n,
                            Overall_Mean = py_round overall_mean 2,
                            Overall_Std = py_round overall_std 2,
                            Groups = length groups,
                            Group_Details = group_stats\<rparr>])))))
               else Inr [])
         else Inr [])"

fun attribute_loop ::
  "string \<Rightarrow> string list \<Rightarrow> data_row list \<Rightarrow> anova_result list \<Rightarrow> error + anova_result list" where
  "attribute_loop et [] empathy_data results = Inr results"
| "attribute_loop et (attr_type # attribute_types) empathy_data results =
     (case analyze_pair et attr_type empathy_data of
        Inl e \<Rightarrow> Inl e
      | Inr new \<Rightarrow> attribute_loop et attribute_types empathy_data (results @ new))"

fun empathy_loop ::
  "string list \<Rightarrow> string list \<Rightarrow> data_row list \<Rightarrow> anova_result list \<Rightarrow>
     error + anova_result list" where
  "empathy_loop [] attribute_types data results = Inr results"
| "empathy_loop (et # ets) attribute_types data results =
     (let empathy_data = filter (\<lambda>row. empathy_type row = et) data
      in case attribute_loop et attribute_types empathy_data results of
           Inl e \<Rightarrow> Inl e
         | Inr results' \<Rightarrow> empathy_loop ets attribute_types data results')"

definition empathy_types :: "string list" where
  "empathy_types = [''affective'', ''cognitive'', ''motivational'']"

text \<open>
  \<open>analyze_data\<close>.  The source takes \<open>attribute_types = list(set(row['attribute_type'] for
  row in data))\<close>: the distinct attribute types of the data, in the iteration order of a
  Python set, which the language does not fix.  The model takes that list as its first
  argument.
\<close>

definition analyze_data :: "string list \<Rightarrow> data_row list \<Rightarrow> error + anova_result list" where
  "analyze_data attribute_types data = empathy_loop empathy_types attribute_types data []"

text \<open>
  The number of attribute-value groups of a pair, and the pairs that have at least two, in
  the order in which \<open>analyze_data\<close> visits them.
\<close>

definition pair_rows :: "string \<Rightarrow> string \<Rightarrow> data_row list \<Rightarrow> data_row list" where
  "pair_rows et attr_type data =
     filter (\<lambda>row. empathy_type row = et \<and> attribute_type row = attr_type) data"

definition n_groups :: "string \<Rightarrow> string \<Rightarrow> data_row list \<Rightarrow> nat" where
  "n_groups et attr_type data =
     length (remdups (map attribute_value (pair_rows et attr_type data)))"

definition comparable_pairs :: "string list \<Rightarrow> data_row list \<Rightarrow> (string \<times> string) list" where
  "comparable_pairs attribute_types data =
     filter (\<lambda>(et, attr_type). 2 \<le> n_groups et attr_type data)
            (List.product empathy_types attribute_types)"

section \<open>empathy\_score.py: the derived score\<close>

text \<open>
  A row of the data frame, with the five LIWC columns the formula reads, and the row that
  \<open>calculate_new_empathy_score\<close> makes of it.  The column operations of pandas work row by
  row; the other columns are copied unchanged and not modelled.
\<close>

record liwc_row =
  second_person :: real
  negative_emotion :: real
  cognitive_processes :: real
  insight :: real
  first_person_singular :: real

record scored_row = liwc_row +
  new_empathy_score :: real
  second_person_contribution :: real
  negative_emotion_contribution :: real
  cognitive_insight_contribution :: real
  first_person_penalty :: real

definition score_row :: "liwc_row \<Rightarrow> scored_row" where
  "score_row row =
     \<lparr>second_person = second_person row,
      negative_emotion = negative_emotion row,
      cognitive_processes = cognitive_processes row,
      insight = insight row,
      first_person_singular = first_person_singular row,
      new_empathy_score =
        second_person row * 1.5 +
        negative_emotion row * 1.0 +
        (cognitive_processes row + insight row) * 1.2 -
        first_person_singular row * 2.0,
      second_person_contribution = second_person row * 1.5,
      negative_emotion_contribution = negative_emotion row * 1.0,
      cognitive_insight_contribution = (cognitive_processes row + insight row) * 1.2,
      first_person_penalty = first_person_singular row * 2.0\<rparr>"

definition calculate_new_empathy_score :: "liwc_row list \<Rightarrow> scored_row list" where
  "calculate_new_empathy_score df = map score_row df"

section \<open>Python floats\<close>

text \<open>
  The statistics above are stated over the reals.  This section models the floats the
  program computes with: IEEE binary64 numbers with round-to-nearest, ties to even.  A
  finite float is the real it denotes; the sign of zero is not kept (nothing below
  divides by a zero without raising).  The inputs of the float versions of the functions
  are finite floats.
\<close>

datatype pyfloat = Finite real | PosInf | NegInf | NaN

text \<open>\<open>int.bit_length\<close>: the number of binary digits of a natural number.\<close>

fun bit_length :: "nat \<Rightarrow> nat" where
  "bit_length n = (if n = 0 then 0 else Suc (bit_length (n div 2)))"

declare bit_length.simps [simp del]

definition pow2 :: "int \<Rightarrow> real" where
  "pow2 e = (if 0 \<le> e then 2 ^ nat e else 1 / 2 ^ nat (- e))"

text \<open>The binary exponent of a non-zero real: \<open>2 ^ e \<le> \<bar>x\<bar> < 2 ^ (e + 1)\<close>.\<close>

definition float_exponent :: "real \<Rightarrow> int" where
  "float_exponent x =
     (let a = \<bar>x\<bar>
      in if a \<ge> 1 then int (bit_length (nat \<lfloor>a\<rfloor>)) - 1
         else (let k = int (bit_length (nat \<lfloor>1 / a\<rfloor>))
               in if a = pow2 (1 - k) then 1 - k else - k))"

text \<open>
  The nearest number with 53 significant bits (or a multiple of \<open>2 ^ -1074\<close> in the
  subnormal range), ties to even; and the float a real rounds to, infinite from the
  midpoint between the largest float and \<open>2 ^ 1024\<close> on.
\<close>

definition nearest_double :: "real \<Rightarrow> real" where
  "nearest_double x =
     (if x = 0 then 0
      else (let q = pow2 (max (float_exponent x - 52) (- 1074))
            in of_int (round_half_even (x / q)) * q))"

definition to_float :: "real \<Rightarrow> pyfloat" where
  "to_float x =
     (if \<bar>x\<bar> \<ge> 2 ^ 1024 - 2 ^ 970 then (if x > 0 then PosInf else NegInf)
      else Finite (nearest_double x))"

fun is_negative :: "pyfloat \<Rightarrow> bool" where
  "is_negative (Finite a) = (a < 0)"
| "is_negative NegInf = True"
| "is_negative PosInf = False"
| "is_negative NaN = False"

fun fneg :: "pyfloat \<Rightarrow> pyfloat" where
  "fneg (Finite a) = Finite (- a)"
| "fneg PosInf = NegInf"
| "fneg NegInf = PosInf"
| "fneg NaN = NaN"

text \<open>\<open>a + b\<close> and \<open>a - b\<close>: an overflow gives an infinity and raises nothing.\<close>

fun fadd :: "pyfloat \<Rightarrow> pyfloat \<Rightarrow> pyfloat" where
  "fadd (Finite a) (Finite b) = to_float (a + b)"
| "fadd NaN b = NaN"
| "fadd a NaN = NaN"
| "fadd PosInf NegInf = NaN"
| "fadd NegInf PosInf = NaN"
| "fadd PosInf b = PosInf"
| "fadd NegInf b = NegInf"
| "fadd a PosInf = PosInf"
| "fadd a NegInf = NegInf"

definition fsub :: "pyfloat \<Rightarrow> pyfloat \<Rightarrow> pyfloat" where
  "fsub a b = fadd a (fneg b)"

text \<open>\<open>a * b\<close>: zero times an infinity is not a number.\<close>

fun fmul :: "pyfloat \<Rightarrow> pyfloat \<Rightarrow> pyfloat" where
  "fmul (Finite a) (Finite b) = to_float (a * b)"
| "fmul NaN b = NaN"
| "fmul a NaN = NaN"
| "fmul a b =
     (if a = Finite 0 \<or> b = Finite 0 then NaN
      else if is_negative a = is_negative b then PosInf else NegInf)"

text \<open>\<open>a / b\<close>: raises \<open>ZeroDivisionError\<close> when the divisor is zero, whatever \<open>a\<close> is.\<close>

fun fdiv :: "pyfloat \<Rightarrow> pyfloat \<Rightarrow> error + pyfloat" where
  "fdiv a (Finite b) =
     (if b = 0 then Inl ZeroDivisionError
      else (case a of
              Finite x \<Rightarrow> Inr (to_float (x / b))
            | NaN \<Rightarrow> Inr NaN
            | _ \<Rightarrow> Inr (if is_negative a = (b < 0) then PosInf else NegInf)))"
| "fdiv a NaN = Inr NaN"
| "fdiv (Finite x) b = Inr (Finite 0)"
| "fdiv a b = Inr NaN"

text \<open>
  \<open>x ** 2\<close>: the correctly rounded square.  Where the square of a finite float is out of
  range, \<open>**\<close> raises \<open>OverflowError\<close> instead of returning an infinity.
\<close>

fun fsquare :: "pyfloat \<Rightarrow> error + pyfloat" where
  "fsquare (Finite x) =
     (case to_float (x * x) of Finite r \<Rightarrow> Inr (Finite r) | _ \<Rightarrow> Inl OverflowError)"
| "fsquare NaN = Inr NaN"
| "fsquare a = Inr PosInf"

text \<open>\<open>a > c\<close> against a finite number: false for a NaN.\<close>

fun fgt :: "pyfloat \<Rightarrow> real \<Rightarrow> bool" where
  "fgt (Finite a) c = (a > c)"
| "fgt PosInf c = True"
| "fgt NegInf c = False"
| "fgt NaN c = False"

text \<open>
  \<open>statistics.mean\<close> on finite floats: the exact sum over the count, rounded once; an
  error on empty data.
\<close>

definition fmean :: "real list \<Rightarrow> error + pyfloat" where
  "fmean xs = (if xs = [] then Inl StatisticsError
               else Inr (to_float (sum_list xs / real (length xs))))"

text \<open>
  \<open>sum((x - m) ** 2 for x in xs)\<close>, with the running total: \<open>sum\<close> starts from 0 and adds
  the terms in the order of the list, rounding after each addition (CPython up to 3.11;
  later versions compensate the rounding errors).  The first square that overflows ends
  the sum with its error.
\<close>

fun sum_squares :: "real list \<Rightarrow> pyfloat \<Rightarrow> pyfloat \<Rightarrow> error + pyfloat" where
  "sum_squares [] m running = Inr running"
| "sum_squares (x # xs) m running =
     (case fsquare (fsub (Finite x) m) of
        Inl e \<Rightarrow> Inl e
      | Inr t \<Rightarrow> sum_squares xs m (fadd running t))"

text \<open>
  \<open>sum(n * (mean - grand_mean) ** 2 for mean, n in zip(group_means, group_sizes))\<close>
  on floats.
\<close>

fun between_sum_float :: "(pyfloat \<times> nat) list \<Rightarrow> pyfloat \<Rightarrow> pyfloat \<Rightarrow> error + pyfloat" where
  "between_sum_float [] grand_mean running = Inr running"
| "between_sum_float ((m, n) # rest) grand_mean running =
     (case fsquare (fsub m grand_mean) of
        Inl e \<Rightarrow> Inl e
      | Inr t \<Rightarrow> between_sum_float rest grand_mean (fadd running (fmul (to_float (real n)) t)))"

fun collect_groups_float ::
  "real list list \<Rightarrow> pyfloat list \<times> nat list \<times> real list \<Rightarrow>
     error + (pyfloat list \<times> nat list \<times> real list)" where
  "collect_groups_float [] acc = Inr acc"
| "collect_groups_float (grp # groups) (group_means, group_sizes, all_values) =
     (if length grp > 0 then
        (case fmean grp of
           Inl e \<Rightarrow> Inl e
         | Inr m \<Rightarrow>
             collect_groups_float groups
               (group_means @ [m], group_sizes @ [length grp], all_values @ grp))
      else collect_groups_float groups (group_means, group_sizes, all_values))"

fun ssw_loop_float :: "real list list \<Rightarrow> pyfloat \<Rightarrow> error + pyfloat" where
  "ssw_loop_float [] ssw = Inr ssw"
| "ssw_loop_float (grp # groups) ssw =
     (if length grp > 1 then
        (case fmean grp of
           Inl e \<Rightarrow> Inl e
         | Inr group_mean \<Rightarrow>
             (case sum_squares grp group_mean (Finite 0) of
                Inl e \<Rightarrow> Inl e
              | Inr s \<Rightarrow> ssw_loop_float groups (fadd ssw s)))
      else ssw_loop_float groups ssw)"

definition p_bucket_float :: "pyfloat \<Rightarrow> pyfloat" where
  "p_bucket_float f_stat =
     (if fgt f_stat 7.0 then to_float 0.001
      else if fgt f_stat 4.0 then to_float 0.01
      else if fgt f_stat 2.5 then to_float 0.05
      else to_float 0.1)"

definition f_from_sums_float ::
  "pyfloat \<Rightarrow> pyfloat \<Rightarrow> nat \<Rightarrow> nat \<Rightarrow> error + (pyfloat \<times> pyfloat)" where
  "f_from_sums_float ssb ssw num_groups num_values =
     (let df_between = int num_groups - 1;
          df_within = int num_values - int num_groups
      in if df_between = 0 \<or> df_within = 0 then Inr (Finite 0, Finite 1)
         else
           (case fdiv ssb (to_float (of_int df_between)) of
              Inl e \<Rightarrow> Inl e
            | Inr msb \<Rightarrow>
                (case (if df_within > 0 then fdiv ssw (to_float (of_int df_within))
                       else Inr (Finite 1)) of
                   Inl e \<Rightarrow> Inl e
                 | Inr msw \<Rightarrow>
                     (case (if fgt msw 0 then fdiv msb msw else Inr (Finite 0)) of
                        Inl e \<Rightarrow> Inl e
                      | Inr f_stat \<Rightarrow> Inr (f_stat, p_bucket_float f_stat)))))"

text \<open>\<open>calculate_f_statistic\<close> and \<open>calculate_eta_squared\<close> as they run, on floats.\<close>

definition calculate_f_statistic_float :: "real list list \<Rightarrow> error + (pyfloat \<times> pyfloat)" where
  "calculate_f_statistic_float groups =
     (if length groups < 2 then Inr (Finite 0, Finite 1)
      else
        (case collect_groups_float groups ([], [], []) of
           Inl e \<Rightarrow> Inl e
         | Inr (group_means, group_sizes, all_values) \<Rightarrow>
             if length all_values < 2 then Inr (Finite 0, Finite 1)
             else
               (case fmean all_values of
                  Inl e \<Rightarrow> Inl e
                | Inr grand_mean \<Rightarrow>
                    (case between_sum_float (zip group_means group_sizes) grand_mean (Finite 0) of
                       Inl e \<Rightarrow> Inl e
                     | Inr ssb \<Rightarrow>
                         (case ssw_loop_float groups (Finite 0) of
                            Inl e \<Rightarrow> Inl e
                          | Inr ssw \<Rightarrow>
                              f_from_sums_float ssb ssw (length groups) (length all_values))))))"


section \<open>What the loops compute\<close>

lemma mean_nonempty: "xs \<noteq> [] \<Longrightarrow> mean xs = Inr (avg xs)"
  by (simp add: mean_def avg_def)

lemma collect_groups_eq:
  "collect_groups groups (ms, ns, vs) =
     Inr (ms @ map avg (nonempty_groups groups),
          ns @ map length (nonempty_groups groups),
          vs @ concat groups)"
proof (induction groups arbitrary: ms ns vs)
  case Nil
  show ?case by (simp add: nonempty_groups_def)
next
  case (Cons g groups)
  show ?case
  proof (cases "g = []")
    case True
    then show ?thesis using Cons.IH [of ms ns vs] by (simp add: nonempty_groups_def)
  next
    case False
    then show ?thesis
      using Cons.IH [of "ms @ [avg g]" "ns @ [length g]" "vs @ g"]
      by (simp add: nonempty_groups_def mean_nonempty)
  qed
qed

lemma between_sum_eq:
  "between_sum (map avg gs) (map length gs) c =
     sum_list (map (\<lambda>g. real (length g) * (avg g - c)\<^sup>2) gs)"
  by (induction gs) (simp_all add: between_sum_def)

lemma ssw_group_small:
  "length g \<le> 1 \<Longrightarrow> sum_list (map (\<lambda>x. (x - avg g)\<^sup>2) g) = 0"
proof (cases g)
  case Nil
  then show ?thesis by simp
next
  case (Cons a as)
  assume "length g \<le> 1"
  with Cons have "g = [a]" by simp
  then show ?thesis by (simp add: avg_def)
qed

lemma ssw_loop_eq:
  "ssw_loop groups acc =
     Inr (acc + sum_list (map (\<lambda>g. sum_list (map (\<lambda>x. (x - avg g)\<^sup>2) g)) groups))"
proof (induction groups arbitrary: acc)
  case Nil
  show ?case by simp
next
  case (Cons g groups)
  show ?case
  proof (cases "length g > 1")
    case True
    then have "g \<noteq> []" by auto
    with True show ?thesis
      using Cons.IH [of "acc + sum_list (map (\<lambda>x. (x - avg g)\<^sup>2) g)"]
      by (simp add: mean_nonempty add.assoc)
  next
    case False
    then have "length g \<le> 1" by simp
    then show ?thesis
      using False Cons.IH [of acc] by (simp add: ssw_group_small)
  qed
qed

lemma ssw_loop_SSW: "ssw_loop groups 0 = Inr (SSW groups)"
  by (simp add: ssw_loop_eq SSW_def)

lemma f_from_sums_total:
  "f_from_sums ssb ssw k n =
     Inr (if int k - 1 = 0 \<or> int n - int k = 0 then (0, 1)
          else (let msb = ssb / of_int (int k - 1);
                    msw = (if int n - int k > 0 then ssw / of_int (int n - int k) else 1);
                    f_stat = (if msw > 0 then msb / msw else 0)
                in (f_stat, p_bucket f_stat)))"
  by (simp add: f_from_sums_def py_div_def Let_def)

lemma collect_groups_start:
  "collect_groups groups ([], [], []) =
      Inr (map avg (nonempty_groups groups), map length (nonempty_groups groups), concat groups)"
  using collect_groups_eq [of groups "[]" "[]" "[]"] by simp

lemma mean_pooled:
  assumes "\<not> length (concat groups) < 2"
  shows "mean (concat groups) = Inr (grand_mean_of groups)"
proof -
  have "concat groups \<noteq> []"
  proof
    assume "concat groups = []"
    then have "length (concat groups) = 0" by (simp only: list.size)
    with assms show False by linarith
  qed
  then show ?thesis by (simp add: mean_nonempty grand_mean_of_def)
qed

lemma calculate_f_statistic_eq:
  "calculate_f_statistic groups =
     (if length groups < 2 \<or> length (concat groups) < 2 then Inr (0, 1)
      else f_from_sums (SSB groups) (SSW groups) (length groups) (length (concat groups)))"
proof (cases "length (concat groups) < 2")
  case True
  then show ?thesis by (simp add: calculate_f_statistic_def collect_groups_start)
next
  case False
  then show ?thesis
    by (simp add: calculate_f_statistic_def collect_groups_start mean_pooled
        between_sum_eq ssw_loop_SSW SSB_def)
qed

lemma calculate_eta_squared_eq:
  "calculate_eta_squared groups =
     Inr (if length (concat groups) < 2 then 0
          else if SST groups > 0 then SSB groups / SST groups else 0)"
proof (cases "length (concat groups) < 2")
  case True
  then show ?thesis by (simp add: calculate_eta_squared_def collect_groups_start)
next
  case False
  then show ?thesis
    by (simp add: calculate_eta_squared_def collect_groups_start mean_pooled
        between_sum_eq SSB_def SST_def py_div_def Let_def)
qed

lemma SSB_nonneg: "0 \<le> SSB groups"
  unfolding SSB_def by (rule sum_list_nonneg) auto

lemma SSW_nonneg: "0 \<le> SSW groups"
  unfolding SSW_def by (rule sum_list_nonneg) (auto intro!: sum_list_nonneg)

lemma SST_nonneg: "0 \<le> SST groups"
  unfolding SST_def by (rule sum_list_nonneg) auto

lemma p_bucket_cases: "p_bucket f \<in> {1/1000, 1/100, 1/20, 1/10}"
  by (simp add: p_bucket_def)

lemma length_le_concat: "[] \<notin> set gs \<Longrightarrow> length gs \<le> length (concat gs)"
proof (induction gs)
  case Nil
  show ?case by simp
next
  case (Cons g gs)
  then show ?case by (cases g) auto
qed

lemma concat_nonempty_groups: "concat (nonempty_groups gs) = concat gs"
  by (induction gs) (simp_all add: nonempty_groups_def)

lemma SSB_few_groups:
  assumes "length (nonempty_groups groups) < 2"
  shows "SSB groups = 0"
proof (cases "nonempty_groups groups")
  case Nil
  then show ?thesis by (simp add: SSB_def)
next
  case (Cons g gs)
  with assms have one: "nonempty_groups groups = [g]" by simp
  then have "concat groups = g"
    using concat_nonempty_groups [of groups] by simp
  then show ?thesis by (simp add: SSB_def one grand_mean_of_def)
qed

section \<open>The F statistic\<close>

text \<open>
  Claim C1, as the code has it.  For two or more groups, none of them empty, whose
  within-groups sum of squares is zero, \<open>calculate_f_statistic\<close> raises no error and
  returns F = 0: the mean square within is 0 (it is replaced by 1 only when the degrees of
  freedom within are negative), and the guard \<open>msb / msw if msw > 0 else 0\<close> gives 0.  The
  p-value is 1 when every group has one value (the degrees of freedom within are 0) and 0.1
  otherwise.
\<close>

theorem zero_within_variance_gives_zero_F:
  assumes "2 \<le> length groups" and "[] \<notin> set groups" and "SSW groups = 0"
  shows "calculate_f_statistic groups =
           Inr (0, if length (concat groups) = length groups then 1 else 1/10)"
proof -
  have le: "length groups \<le> length (concat groups)"
    using assms(2) by (rule length_le_concat)
  with assms(1) have big: "\<not> (length groups < 2 \<or> length (concat groups) < 2)" by simp
  show ?thesis
    using le assms(1) assms(3)
    by (simp add: calculate_f_statistic_eq big f_from_sums_total p_bucket_def del: of_nat_diff)
qed

theorem zero_within_variance_gives_zero_F_witness:
  "2 \<le> length [[5, 5, 5], [7, 7 :: real]] \<and> [] \<notin> set [[5, 5, 5], [7, 7 :: real]]
     \<and> SSW [[5, 5, 5], [7, 7]] = 0
     \<and> calculate_f_statistic [[5, 5, 5], [7, 7]] = Inr (0, 1/10)"
proof -
  have h1: "2 \<le> length [[5, 5, 5], [7, 7 :: real]]" by simp
  have h2: "[] \<notin> set [[5, 5, 5], [7, 7 :: real]]" by simp
  have h3: "SSW [[5, 5, 5], [7, 7]] = 0" by (simp add: SSW_def avg_def)
  show ?thesis
    using zero_within_variance_gives_zero_F [OF h1 h2 h3] h1 h2 h3 by simp
qed

text \<open>
  The claim as the specification states it (F equal to the mean square between, not 0)
  fails on two groups of equal values with different means: the within-groups sum of squares
  is 0, the mean square between is 1, and the function returns F = 0 with p = 0.1.
\<close>

theorem zero_within_counterexample:
  "SSW [[1, 1], [2, 2]] = 0 \<and> avg [1, 1] \<noteq> avg [2, 2]
     \<and> SSB [[1, 1], [2, 2]] / real (length [[1, 1], [2, 2 :: real]] - 1) = 1
     \<and> calculate_f_statistic [[1, 1], [2, 2]] = Inr (0, 1/10)"
  by (simp add: SSW_def SSB_def avg_def nonempty_groups_def grand_mean_of_def power2_eq_square
      calculate_f_statistic_def mean_def between_sum_def f_from_sums_def py_div_def p_bucket_def)

text \<open>
  Claim C2, as the code has it.  With fewer than two non-empty groups,
  \<open>calculate_f_statistic\<close> raises no error and returns F = 0.  The p-value is 1 when there
  are fewer than two groups in all, fewer than two pooled values, or as many pooled values
  as groups; otherwise the function goes through the F computation and returns p = 0.1.
\<close>

theorem few_groups_gives_zero_F:
  assumes "length (nonempty_groups groups) < 2"
  shows "calculate_f_statistic groups =
           Inr (0, if length groups < 2 \<or> length (concat groups) < 2
                      \<or> length (concat groups) = length groups then 1 else 1/10)"
  using SSB_few_groups [OF assms]
  by (simp add: calculate_f_statistic_eq f_from_sums_total p_bucket_def Let_def)

theorem few_groups_gives_zero_F_witness:
  "length (nonempty_groups [[4, 6], [], []]) < 2
     \<and> calculate_f_statistic [[4, 6], [], []] = Inr (0, 1/10)"
proof -
  have h: "length (nonempty_groups [[4, 6], [], []]) < 2" by (simp add: nonempty_groups_def)
  show ?thesis using few_groups_gives_zero_F [OF h] h by simp
qed

text \<open>
  The claim as the specification states it (p = 1 whenever fewer than two groups are
  non-empty) fails on one group of three values followed by an empty group: the function
  counts both groups, reaches the F computation and returns p = 0.1.
\<close>

theorem few_groups_counterexample:
  "length (nonempty_groups [[1, 2, 3], []]) < 2
     \<and> calculate_f_statistic [[1, 2, 3], []] = Inr (0, 1/10)
     \<and> calculate_f_statistic [[1, 2, 3], []] \<noteq> Inr (0, 1)"
  by (simp add: nonempty_groups_def power2_eq_square
      calculate_f_statistic_def mean_def between_sum_def f_from_sums_def py_div_def p_bucket_def)

text \<open>
  Claim C4.  For two or more groups, none of them empty, with positive degrees of freedom
  between and within, \<open>calculate_f_statistic\<close> returns the F it computes (the mean square
  between over the mean square within, 0 when the latter is not positive) and the bucket
  of that F: 0.001 above 7, else 0.01 above 4, else 0.05 above 2.5, else 0.1.
\<close>

theorem p_value_is_bucket_of_F:
  assumes "2 \<le> length groups" and "[] \<notin> set groups"
    and "0 < int (length groups) - 1"
    and "0 < int (length (concat groups)) - int (length groups)"
  shows "\<exists>F. calculate_f_statistic groups =
                Inr (F, if F > 7 then 1/1000 else if F > 4 then 1/100
                        else if F > 5/2 then 1/20 else 1/10)
            \<and> F = (let msb = SSB groups / real (length groups - 1);
                        msw = SSW groups / real (length (concat groups) - length groups)
                    in if msw > 0 then msb / msw else 0)"
  using assms
  by (simp add: calculate_f_statistic_eq f_from_sums_total p_bucket_def Let_def)

theorem p_value_is_bucket_of_F_witness:
  "2 \<le> length [[1, 2], [3, 5 :: real]] \<and> [] \<notin> set [[1, 2], [3, 5 :: real]]
     \<and> 0 < int (length [[1, 2], [3, 5 :: real]]) - 1
     \<and> 0 < int (length (concat [[1, 2], [3, 5 :: real]])) - int (length [[1, 2], [3, 5 :: real]])
     \<and> calculate_f_statistic [[1, 2], [3, 5]] = Inr (5, 1/100)"
proof -
  have h1: "2 \<le> length [[1, 2], [3, 5 :: real]]" by simp
  have h2: "[] \<notin> set [[1, 2], [3, 5 :: real]]" by simp
  have h3: "0 < int (length [[1, 2], [3, 5 :: real]]) - 1" by simp
  have h4: "0 < int (length (concat [[1, 2], [3, 5 :: real]])) - int (length [[1, 2], [3, 5 :: real]])"
    by simp
  have b: "SSB [[1, 2], [3, 5]] = 25/4"
    by (simp add: SSB_def avg_def nonempty_groups_def grand_mean_of_def power2_eq_square)
  have w: "SSW [[1, 2], [3, 5]] = 5/2"
    by (simp add: SSW_def avg_def power2_eq_square)
  show ?thesis
    using p_value_is_bucket_of_F [OF h1 h2 h3 h4] h1 h2 h3 h4 by (simp add: b w)
qed

text \<open>
  Claim C10, as the code has it.  In exact arithmetic \<open>calculate_f_statistic\<close> returns a
  pair on every list of lists of reals (every mean is taken of a non-empty list and every
  divisor is non-zero), with F at least 0 and p one of 0.001, 0.01, 0.05, 0.1 and 1; and p
  is 1 exactly when one of the early returns is taken (fewer than two groups, fewer than
  two pooled values, or zero degrees of freedom within).  On floats the function is not
  total: a square \<open>(x - mean) ** 2\<close> that is out of the float range raises
  \<open>OverflowError\<close>, as the counterexample below shows.
\<close>

theorem calculate_f_statistic_total:
  "\<exists>F p. calculate_f_statistic groups = Inr (F, p) \<and> 0 \<le> F
      \<and> p \<in> {1/1000, 1/100, 1/20, 1/10, 1}
      \<and> ((p = 1) = (length groups < 2 \<or> length (concat groups) < 2
                      \<or> length (concat groups) = length groups))"
proof (cases "length groups < 2 \<or> length (concat groups) < 2
                      \<or> length (concat groups) = length groups")
  case True
  then show ?thesis
    by (auto simp add: calculate_f_statistic_eq f_from_sums_total)
next
  case False
  define msb where "msb = SSB groups / of_int (int (length groups) - 1)"
  define msw where "msw = (if int (length (concat groups)) - int (length groups) > 0
      then SSW groups / of_int (int (length (concat groups)) - int (length groups)) else 1)"
  define F where "F = (if msw > 0 then msb / msw else 0)"
  from False have "0 < int (length groups) - 1" by simp
  then have "0 \<le> msb" unfolding msb_def using SSB_nonneg [of groups] by simp
  then have F0: "0 \<le> F" unfolding F_def by simp
  have res: "calculate_f_statistic groups = Inr (F, p_bucket F)"
    using False by (simp add: calculate_f_statistic_eq f_from_sums_total Let_def
        F_def msw_def msb_def)
  have "p_bucket F \<noteq> 1" by (simp add: p_bucket_def)
  with res F0 False p_bucket_cases [of F] show ?thesis by auto
qed

theorem calculate_f_statistic_total_witness:
  "\<exists>F p. calculate_f_statistic [[1, 2], [3, 5]] = Inr (F, p) \<and> 0 \<le> F
      \<and> p \<in> {1/1000, 1/100, 1/20, 1/10, 1} \<and> p \<noteq> 1"
  using calculate_f_statistic_total [of "[[1, 2], [3, 5]]"] by simp

text \<open>
  The claim as the specification states it (no branch raises) fails on floats.  On the
  groups \<open>[2.0 ** 512, -(2.0 ** 512)]\<close> and \<open>[0.0, 1.0]\<close> the means are 0.0 and 0.5, the
  grand mean is 0.25 and the between-groups sum is 0.25; then the within-groups loop
  squares \<open>2.0 ** 512 - 0.0\<close>, which is out of range, and \<open>**\<close> raises \<open>OverflowError\<close>.
\<close>

theorem f_statistic_float_overflow_counterexample:
  "calculate_f_statistic_float [[2 ^ 512, - (2 ^ 512)], [0, 1]] = Inl OverflowError"
  by (simp add: calculate_f_statistic_float_def to_float_def nearest_double_def
      float_exponent_def pow2_def round_half_even_def bit_length.simps fsub_def fmean_def)

section \<open>Eta squared\<close>

text \<open>
  The between-groups sum of squares is at most the total one: within a group, the squared
  distances to any point \<open>c\<close> sum to the squared distances to the group mean plus the group
  size times the squared distance of the mean to \<open>c\<close>.
\<close>

lemma sum_sq_shift:
  fixes c m :: real
  shows "(\<Sum>x\<leftarrow>g. (x - c)\<^sup>2) =
     (\<Sum>x\<leftarrow>g. (x - m)\<^sup>2) + 2 * (m - c) * (sum_list g - real (length g) * m)
       + real (length g) * (m - c)\<^sup>2"
  by (induction g) (simp_all add: power2_eq_square algebra_simps)

lemma between_term_le:
  assumes "g \<noteq> []"
  shows "real (length g) * (avg g - c)\<^sup>2 \<le> (\<Sum>x\<leftarrow>g. (x - c)\<^sup>2)"
proof -
  from assms have "real (length g) \<noteq> 0" by simp
  then have z: "sum_list g - real (length g) * avg g = 0" by (simp add: avg_def)
  have "0 \<le> (\<Sum>x\<leftarrow>g. (x - avg g)\<^sup>2)" by (rule sum_list_nonneg) auto
  then show ?thesis using sum_sq_shift [of c g "avg g"] z by simp
qed

lemma between_le_total:
  "(\<Sum>g\<leftarrow>nonempty_groups gs. real (length g) * (avg g - c)\<^sup>2)
     \<le> (\<Sum>x\<leftarrow>concat gs. (x - c)\<^sup>2)"
proof (induction gs)
  case Nil
  show ?case by (simp add: nonempty_groups_def)
next
  case (Cons g gs)
  show ?case
  proof (cases "g = []")
    case True
    with Cons show ?thesis by (simp add: nonempty_groups_def)
  next
    case False
    from between_term_le [OF False, of c] Cons False
    show ?thesis by (simp add: nonempty_groups_def)
  qed
qed

lemma SSB_le_SST: "SSB groups \<le> SST groups"
  unfolding SSB_def SST_def by (rule between_le_total)

text \<open>
  Claim C5.  With at least two pooled values \<open>calculate_eta_squared\<close> returns SSB / SST,
  where SST is the sum over the pooled values of the squared distance to the grand mean
  and SSB the sum over the non-empty groups of the group size times the squared distance
  of the group mean to the grand mean; it returns 0 when SST is 0; and the result lies
  between 0 and 1.
\<close>

theorem eta_squared_is_SSB_over_SST:
  assumes "2 \<le> length (concat groups)"
  shows "calculate_eta_squared groups =
           Inr (if SST groups = 0 then 0 else SSB groups / SST groups)
         \<and> 0 \<le> (if SST groups = 0 then 0 else SSB groups / SST groups)
         \<and> (if SST groups = 0 then 0 else SSB groups / SST groups) \<le> 1"
proof -
  have nn: "0 \<le> SST groups" by (rule SST_nonneg)
  have b: "0 \<le> SSB groups" by (rule SSB_nonneg)
  have le: "SSB groups \<le> SST groups" by (rule SSB_le_SST)
  show ?thesis
  proof (cases "SST groups = 0")
    case True
    with assms show ?thesis by (simp add: calculate_eta_squared_eq)
  next
    case False
    with nn have pos: "0 < SST groups" by simp
    with b le have "0 \<le> SSB groups / SST groups" "SSB groups / SST groups \<le> 1" by simp_all
    with assms pos False show ?thesis by (simp add: calculate_eta_squared_eq)
  qed
qed

theorem eta_squared_is_SSB_over_SST_witness:
  "2 \<le> length (concat [[1, 2], [3, 5 :: real]])
     \<and> SSB [[1, 2], [3, 5]] = 25/4 \<and> SST [[1, 2], [3, 5]] = 35/4
     \<and> calculate_eta_squared [[1, 2], [3, 5]] = Inr (5/7)"
proof -
  have h: "2 \<le> length (concat [[1, 2], [3, 5 :: real]])" by simp
  have b: "SSB [[1, 2], [3, 5]] = 25/4"
    by (simp add: SSB_def avg_def nonempty_groups_def grand_mean_of_def power2_eq_square)
  have t: "SST [[1, 2], [3, 5]] = 35/4"
    by (simp add: SST_def avg_def grand_mean_of_def power2_eq_square)
  show ?thesis
    using eta_squared_is_SSB_over_SST [OF h] h by (simp add: b t)
qed









section \<open>The analysis\<close>

text \<open>
  The dictionary of groups has one entry for each attribute value of the rows, each with a
  non-empty group; so filtering the empty groups out changes nothing, and the number of
  groups is the number of distinct attribute values.
\<close>

lemma groups_append_keys:
  "map fst (groups_append d k v) = (if k \<in> fst ` set d then map fst d else map fst d @ [k])"
  by (induction d k v rule: groups_append.induct) auto

lemma groups_append_nonempty:
  "[] \<notin> snd ` set d \<Longrightarrow> [] \<notin> snd ` set (groups_append d k v)"
  by (induction d k v rule: groups_append.induct) auto

lemma fold_groups_append:
  assumes "distinct (map fst d)" and "[] \<notin> snd ` set d"
  shows "distinct (map fst (fold (\<lambda>row d. groups_append d (attribute_value row) (empathy_score row)) rows d))
       \<and> set (map fst (fold (\<lambda>row d. groups_append d (attribute_value row) (empathy_score row)) rows d))
           = fst ` set d \<union> attribute_value ` set rows
       \<and> [] \<notin> snd ` set (fold (\<lambda>row d. groups_append d (attribute_value row) (empathy_score row)) rows d)"
  using assms
proof (induction rows arbitrary: d)
  case Nil
  then show ?case by simp
next
  case (Cons row rows)
  let ?d = "groups_append d (attribute_value row) (empathy_score row)"
  have 1: "distinct (map fst ?d)" using Cons.prems(1) by (simp add: groups_append_keys)
  have 2: "[] \<notin> snd ` set ?d" using Cons.prems(2) by (rule groups_append_nonempty)
  have 3: "fst ` set ?d = insert (attribute_value row) (fst ` set d)"
  proof -
    have "fst ` set ?d = set (map fst ?d)" by simp
    also have "\<dots> = insert (attribute_value row) (fst ` set d)"
      by (simp only: groups_append_keys) auto
    finally show ?thesis .
  qed
  from Cons.IH [OF 1 2] show ?case by (simp add: 3)
qed

lemma build_groups_dict_props:
  "distinct (map fst (build_groups_dict rows))
   \<and> set (map fst (build_groups_dict rows)) = attribute_value ` set rows
   \<and> [] \<notin> snd ` set (build_groups_dict rows)"
  using fold_groups_append [of "[]" rows] by (simp add: build_groups_dict_def)

lemma length_build_groups_dict:
  "length (build_groups_dict rows) = length (remdups (map attribute_value rows))"
proof -
  have d: "distinct (map fst (build_groups_dict rows))"
    using build_groups_dict_props [of rows] by blast
  have "length (build_groups_dict rows) = length (map fst (build_groups_dict rows))" by simp
  also have "\<dots> = card (set (map fst (build_groups_dict rows)))"
    using distinct_card [OF d] by simp
  also have "\<dots> = card (set (map attribute_value rows))"
    using build_groups_dict_props [of rows] by simp
  also have "\<dots> = length (remdups (map attribute_value rows))"
    by (simp only: length_remdups_card_conv)
  finally show ?thesis .
qed

lemma groups_of_dict:
  "filter (\<lambda>g. length g > 0) (map snd (build_groups_dict rows)) = map snd (build_groups_dict rows)"
proof -
  have "[] \<notin> set (map snd (build_groups_dict rows))"
    using build_groups_dict_props [of rows] by simp
  then have "\<forall>g \<in> set (map snd (build_groups_dict rows)). length g > 0"
    by (metis length_greater_0_conv)
  then show ?thesis by (simp only: filter_True)
qed

lemma group_stats_loop_total: "\<exists>stats. group_stats_loop items acc = Inr stats"
proof (induction items arbitrary: acc)
  case Nil
  show ?case by simp
next
  case (Cons item items)
  obtain k g where item: "item = (k, g)" by (cases item)
  show ?case
  proof (cases "length g > 0")
    case False
    with Cons.IH [of acc] item show ?thesis by simp
  next
    case True
    then have ne: "g \<noteq> []" by simp
    obtain s where s: "(if length g > 1 then stdev g else Inr 0) = Inr s"
      by (cases "length g > 1") (simp_all add: stdev_def Let_def)
    from Cons.IH [of "acc @ [(k, \<lparr>stat_n = length g, stat_mean = avg g, stat_std = s\<rparr>)]"]
    show ?thesis using item True s by (simp add: mean_nonempty [OF ne])
  qed
qed

lemma significance_never_three_stars:
  assumes "p \<in> {1/1000, 1/100, 1/20, 1/10, 1 :: real}"
  shows "fst (significance_of p) \<in> {''**'', ''*'', ''ns''}"
  using assms by (auto simp add: significance_of_def)


lemma calculate_f_statistic_range:
  "\<exists>F p. calculate_f_statistic groups = Inr (F, p) \<and> p \<in> {1/1000, 1/100, 1/20, 1/10, 1}"
proof (cases "length groups < 2 \<or> length (concat groups) < 2")
  case True
  then show ?thesis by (auto simp add: calculate_f_statistic_eq)
next
  case False
  then show ?thesis
    using p_bucket_cases by (auto simp add: calculate_f_statistic_eq f_from_sums_total Let_def)
qed

lemma n_groups_filter:
  "n_groups et attr_type data =
     length (remdups (map attribute_value
       (filter (\<lambda>row. attribute_type row = attr_type)
          (filter (\<lambda>row. empathy_type row = et) data))))"
  by (simp add: n_groups_def pair_rows_def)

lemma analyze_pair_few:
  assumes "length (remdups (map attribute_value (filter (\<lambda>row. attribute_type row = attr_type) empathy_data))) < 2"
  shows "analyze_pair et attr_type empathy_data = Inr []"
  unfolding analyze_pair_def Let_def groups_of_dict
  using assms by (simp add: length_build_groups_dict)

lemma analyze_pair_many:
  assumes "2 \<le> length (remdups (map attribute_value (filter (\<lambda>row. attribute_type row = attr_type) empathy_data)))"
  shows "\<exists>r. analyze_pair et attr_type empathy_data = Inr [r]
           \<and> Empathy_Type r = title et \<and> Attribute_Type r = title attr_type
           \<and> Groups r = length (remdups (map attribute_value (filter (\<lambda>row. attribute_type row = attr_type) empathy_data)))
           \<and> Significance r \<in> {''**'', ''*'', ''ns''}"
proof -
  let ?attr_data = "filter (\<lambda>row. attribute_type row = attr_type) empathy_data"
  let ?groups = "map snd (build_groups_dict ?attr_data)"
  have len: "length ?groups = length (remdups (map attribute_value (filter (\<lambda>row. attribute_type row = attr_type) empathy_data)))"
    by (simp add: length_build_groups_dict)
  have ne: "?attr_data \<noteq> []"
  proof
    assume "?attr_data = []"
    then have "length (remdups (map attribute_value (filter (\<lambda>row. attribute_type row = attr_type) empathy_data))) = 0" by simp
    with assms show False by simp
  qed
  obtain F p where f: "calculate_f_statistic ?groups = Inr (F, p)"
    and p: "p \<in> {1/1000, 1/100, 1/20, 1/10, 1}"
    using calculate_f_statistic_range [of ?groups] by blast
  obtain eta where e: "calculate_eta_squared ?groups = Inr eta"
    by (simp add: calculate_eta_squared_eq)
  obtain stats where s: "group_stats_loop (build_groups_dict ?attr_data) [] = Inr stats"
    using group_stats_loop_total by blast
  have m: "mean (map empathy_score ?attr_data) = Inr (avg (map empathy_score ?attr_data))"
    using ne by (simp add: mean_nonempty)
  obtain sd where sd: "(if length (map empathy_score ?attr_data) > 1
      then stdev (map empathy_score ?attr_data) else Inr 0) = Inr sd"
    by (cases "length (map empathy_score ?attr_data) > 1") (simp_all add: stdev_def Let_def)
  have sig: "fst (significance_of p) \<in> {''**'', ''*'', ''ns''}"
    using p by (rule significance_never_three_stars)
  have pos: "0 < length ?attr_data" using ne by simp
  have "analyze_pair et attr_type empathy_data =
      Inr [\<lparr>Empathy_Type = title et,
            Attribute_Type = title attr_type,
            F_Statistic = py_round F 3,
            p_Value = py_round p 4,
            Significance = fst (significance_of p),
            Sig_Level = snd (significance_of p),
            Eta_Squared = py_round eta 3,
            Effect_Size = effect_size_of eta,
            Total_N = length (map empathy_score ?attr_data),
            Overall_Mean = py_round (avg (map empathy_score ?attr_data)) 2,
            Overall_Std = py_round sd 2,
            Groups = length ?groups,
            Group_Details = stats\<rparr>]"
    unfolding analyze_pair_def Let_def groups_of_dict
    using pos assms len sd by (simp add: f e s m del: length_map)
  then show ?thesis using sig len by simp
qed


lemma attribute_loop_records:
  "\<exists>new. attribute_loop et ats (filter (\<lambda>row. empathy_type row = et) data) results
             = Inr (results @ new)
     \<and> map (\<lambda>r. (Empathy_Type r, Attribute_Type r, Groups r)) new =
         map (\<lambda>attr_type. (title et, title attr_type, n_groups et attr_type data))
             (filter (\<lambda>attr_type. 2 \<le> n_groups et attr_type data) ats)
     \<and> (\<forall>r \<in> set new. Significance r \<in> {''**'', ''*'', ''ns''})"
proof (induction ats arbitrary: results)
  case Nil
  show ?case by simp
next
  case (Cons a ats)
  show ?case
  proof (cases "2 \<le> n_groups et a data")
    case False
    then have "n_groups et a data < 2" by simp
    then have "analyze_pair et a (filter (\<lambda>row. empathy_type row = et) data) = Inr []"
      by (intro analyze_pair_few) (simp add: n_groups_filter)
    with Cons.IH [of results] False
    show ?thesis by simp
  next
    case True
    have "2 \<le> length (remdups (map attribute_value
        (filter (\<lambda>row. attribute_type row = a) (filter (\<lambda>row. empathy_type row = et) data))))"
      using True by (simp only: n_groups_filter)
    from analyze_pair_many [OF this, of et] obtain r where
      r: "analyze_pair et a (filter (\<lambda>row. empathy_type row = et) data) = Inr [r]"
      and f: "Empathy_Type r = title et" "Attribute_Type r = title a"
        "Groups r = length (remdups (map attribute_value
           (filter (\<lambda>row. attribute_type row = a) (filter (\<lambda>row. empathy_type row = et) data))))"
        "Significance r \<in> {''**'', ''*'', ''ns''}"
      by blast
    from Cons.IH [of "results @ [r]"] obtain new where
      n: "attribute_loop et ats (filter (\<lambda>row. empathy_type row = et) data) (results @ [r])
            = Inr ((results @ [r]) @ new)"
      and m: "map (\<lambda>r. (Empathy_Type r, Attribute_Type r, Groups r)) new =
         map (\<lambda>attr_type. (title et, title attr_type, n_groups et attr_type data))
             (filter (\<lambda>attr_type. 2 \<le> n_groups et attr_type data) ats)"
      and s: "\<forall>r \<in> set new. Significance r \<in> {''**'', ''*'', ''ns''}"
      by blast
    have "attribute_loop et (a # ats) (filter (\<lambda>row. empathy_type row = et) data) results
            = Inr (results @ (r # new))"
      using r n by simp
    moreover have "map (\<lambda>r. (Empathy_Type r, Attribute_Type r, Groups r)) (r # new) =
         map (\<lambda>attr_type. (title et, title attr_type, n_groups et attr_type data))
             (filter (\<lambda>attr_type. 2 \<le> n_groups et attr_type data) (a # ats))"
      using True f m by (simp add: n_groups_filter del: filter_filter)
    moreover have "\<forall>x \<in> set (r # new). Significance x \<in> {''**'', ''*'', ''ns''}"
      using f(4) s by simp
    ultimately show ?thesis by blast
  qed
qed

lemma empathy_loop_records:
  "\<exists>new. empathy_loop ets ats data results = Inr (results @ new)
     \<and> map (\<lambda>r. (Empathy_Type r, Attribute_Type r, Groups r)) new =
         map (\<lambda>(et, attr_type). (title et, title attr_type, n_groups et attr_type data))
             (filter (\<lambda>(et, attr_type). 2 \<le> n_groups et attr_type data) (List.product ets ats))
     \<and> (\<forall>r \<in> set new. Significance r \<in> {''**'', ''*'', ''ns''})"
proof (induction ets arbitrary: results)
  case Nil
  show ?case by simp
next
  case (Cons et ets)
  from attribute_loop_records [of et ats data results] obtain new1 where
    a: "attribute_loop et ats (filter (\<lambda>row. empathy_type row = et) data) results
          = Inr (results @ new1)"
    and m1: "map (\<lambda>r. (Empathy_Type r, Attribute_Type r, Groups r)) new1 =
         map (\<lambda>attr_type. (title et, title attr_type, n_groups et attr_type data))
             (filter (\<lambda>attr_type. 2 \<le> n_groups et attr_type data) ats)"
    and s1: "\<forall>r \<in> set new1. Significance r \<in> {''**'', ''*'', ''ns''}"
    by blast
  from Cons.IH [of "results @ new1"] obtain new2 where
    e: "empathy_loop ets ats data (results @ new1) = Inr ((results @ new1) @ new2)"
    and m2: "map (\<lambda>r. (Empathy_Type r, Attribute_Type r, Groups r)) new2 =
         map (\<lambda>(et, attr_type). (title et, title attr_type, n_groups et attr_type data))
             (filter (\<lambda>(et, attr_type). 2 \<le> n_groups et attr_type data) (List.product ets ats))"
    and s2: "\<forall>r \<in> set new2. Significance r \<in> {''**'', ''*'', ''ns''}"
    by blast
  have "empathy_loop (et # ets) ats data results = Inr (results @ (new1 @ new2))"
    using a e by simp
  moreover have "map (\<lambda>r. (Empathy_Type r, Attribute_Type r, Groups r)) (new1 @ new2) =
         map (\<lambda>(et, attr_type). (title et, title attr_type, n_groups et attr_type data))
             (filter (\<lambda>(et, attr_type). 2 \<le> n_groups et attr_type data)
                (List.product (et # ets) ats))"
    using m1 m2 by (simp add: filter_map comp_def)
  moreover have "\<forall>r \<in> set (new1 @ new2). Significance r \<in> {''**'', ''*'', ''ns''}"
    using s1 s2 by auto
  ultimately show ?case by blast
qed

lemma analyze_data_records:
  "\<exists>results. analyze_data ats data = Inr results
     \<and> map (\<lambda>r. (Empathy_Type r, Attribute_Type r, Groups r)) results =
         map (\<lambda>(et, attr_type). (title et, title attr_type, n_groups et attr_type data))
             (comparable_pairs ats data)
     \<and> (\<forall>r \<in> set results. Significance r \<in> {''**'', ''*'', ''ns''})"
  using empathy_loop_records [of empathy_types ats data "[]"]
  by (simp add: analyze_data_def comparable_pairs_def)

lemma n_groups_attribute_type:
  assumes "2 \<le> n_groups et attr_type data"
  shows "attr_type \<in> attribute_type ` set data"
proof -
  have "pair_rows et attr_type data \<noteq> []"
  proof
    assume "pair_rows et attr_type data = []"
    then have "n_groups et attr_type data = 0" by (simp add: n_groups_def)
    with assms show False by simp
  qed
  then obtain row where "row \<in> set (pair_rows et attr_type data)"
    by (cases "pair_rows et attr_type data") auto
  then show ?thesis by (auto simp add: pair_rows_def)
qed

lemma comparable_pairs_set:
  assumes "distinct ats" and "set ats = attribute_type ` set data"
  shows "distinct (comparable_pairs ats data)
     \<and> set (comparable_pairs ats data) =
         {(et, attr_type). et \<in> set empathy_types \<and> 2 \<le> n_groups et attr_type data}"
proof -
  have "distinct empathy_types" by (simp add: empathy_types_def)
  then have "distinct (List.product empathy_types ats)" using assms(1) by (rule distinct_product)
  then have d: "distinct (comparable_pairs ats data)" by (simp add: comparable_pairs_def)
  have "set (comparable_pairs ats data) =
         {(et, attr_type). et \<in> set empathy_types \<and> 2 \<le> n_groups et attr_type data}"
    using assms(2) n_groups_attribute_type by (auto simp add: comparable_pairs_def)
  with d show ?thesis by simp
qed

text \<open>
  Claim C7.  \<open>analyze_data\<close> raises no error, and its records are, in order, one for each
  pair of an empathy type and an attribute type that has at least two attribute-value
  groups: the record carries the titled names of the pair and its number of groups.  The
  list of these pairs has no duplicates and holds exactly the pairs of one of the three
  empathy types with an attribute type that have at least two groups, so each such pair
  gets exactly one record and every other pair gets none.
\<close>

theorem analyze_data_one_record_per_pair:
  assumes "distinct attribute_types" and "set attribute_types = attribute_type ` set data"
  shows "\<exists>results. analyze_data attribute_types data = Inr results
     \<and> map (\<lambda>r. (Empathy_Type r, Attribute_Type r, Groups r)) results =
         map (\<lambda>(et, attr_type). (title et, title attr_type, n_groups et attr_type data))
             (comparable_pairs attribute_types data)
     \<and> distinct (comparable_pairs attribute_types data)
     \<and> set (comparable_pairs attribute_types data) =
         {(et, attr_type). et \<in> set empathy_types \<and> 2 \<le> n_groups et attr_type data}"
  using analyze_data_records [of attribute_types data] comparable_pairs_set [OF assms]
  by blast

theorem analyze_data_one_record_per_pair_witness:
  "distinct [''gender'']
   \<and> set [''gender''] = attribute_type ` set
        [\<lparr>empathy_type = ''cognitive'', attribute_type = ''gender'',
          attribute_value = ''male'', empathy_score = 10\<rparr>,
         \<lparr>empathy_type = ''cognitive'', attribute_type = ''gender'',
          attribute_value = ''female'', empathy_score = 20\<rparr>,
         \<lparr>empathy_type = ''affective'', attribute_type = ''gender'',
          attribute_value = ''male'', empathy_score = 5\<rparr>]
   \<and> (\<exists>results. analyze_data [''gender'']
        [\<lparr>empathy_type = ''cognitive'', attribute_type = ''gender'',
          attribute_value = ''male'', empathy_score = 10\<rparr>,
         \<lparr>empathy_type = ''cognitive'', attribute_type = ''gender'',
          attribute_value = ''female'', empathy_score = 20\<rparr>,
         \<lparr>empathy_type = ''affective'', attribute_type = ''gender'',
          attribute_value = ''male'', empathy_score = 5\<rparr>] = Inr results
      \<and> map (\<lambda>r. (Empathy_Type r, Attribute_Type r, Groups r)) results =
            [(''Cognitive'', ''Gender'', 2)])"
proof -
  let ?data = "[\<lparr>empathy_type = ''cognitive'', attribute_type = ''gender'',
          attribute_value = ''male'', empathy_score = 10\<rparr>,
         \<lparr>empathy_type = ''cognitive'', attribute_type = ''gender'',
          attribute_value = ''female'', empathy_score = 20\<rparr>,
         \<lparr>empathy_type = ''affective'', attribute_type = ''gender'',
          attribute_value = ''male'', empathy_score = 5\<rparr>]"
  have h1: "distinct [''gender'']" by simp
  have h2: "set [''gender''] = attribute_type ` set ?data" by simp
  have cp: "comparable_pairs [''gender''] ?data = [(''cognitive'', ''gender'')]"
    by (simp add: comparable_pairs_def empathy_types_def n_groups_def pair_rows_def)
  have n: "n_groups ''cognitive'' ''gender'' ?data = 2"
    by (simp add: n_groups_def pair_rows_def)
  have t: "title ''cognitive'' = ''Cognitive''" "title ''gender'' = ''Gender''"
    by code_simp+
  from analyze_data_one_record_per_pair [OF h1 h2] obtain results where
    a: "analyze_data [''gender''] ?data = Inr results"
    and b: "map (\<lambda>r. (Empathy_Type r, Attribute_Type r, Groups r)) results =
         map (\<lambda>(et, attr_type). (title et, title attr_type, n_groups et attr_type ?data))
             (comparable_pairs [''gender''] ?data)"
    by blast
  have m: "map (\<lambda>r. (Empathy_Type r, Attribute_Type r, Groups r)) results =
      [(''Cognitive'', ''Gender'', 2)]"
    using b by (simp only: cp n t list.map prod.case)
  have c: "\<exists>results. analyze_data [''gender''] ?data = Inr results
      \<and> map (\<lambda>r. (Empathy_Type r, Attribute_Type r, Groups r)) results =
            [(''Cognitive'', ''Gender'', 2)]"
    by (rule exI [of _ results], rule conjI [OF a m])
  show ?thesis by (rule conjI [OF h1 conjI [OF h2 c]])
qed

text \<open>
  Claim C9.  \<open>analyze_data\<close> returns, and no record it returns carries the marker
  \<open>***\<close>: every p-value of the bucket path is at least 0.001, the marker needs
  \<open>p < 0.001\<close>, and at p = 0.001 the marker is \<open>**\<close>.
\<close>

theorem no_three_star_marker:
  "(\<exists>results. analyze_data attribute_types data = Inr results
      \<and> (\<forall>r \<in> set results. Significance r \<noteq> ''***''))
   \<and> (\<forall>F. 1/1000 \<le> p_bucket F \<and> fst (significance_of (p_bucket F)) \<noteq> ''***'')
   \<and> fst (significance_of (1/1000)) = ''**''"
proof -
  from analyze_data_records [of attribute_types data] obtain results where
    r: "analyze_data attribute_types data = Inr results"
    and s: "\<forall>r \<in> set results. Significance r \<in> {''**'', ''*'', ''ns''}"
    by blast
  from s have "\<forall>r \<in> set results. Significance r \<noteq> ''***''" by auto
  with r have 1: "\<exists>results. analyze_data attribute_types data = Inr results
      \<and> (\<forall>r \<in> set results. Significance r \<noteq> ''***'')" by blast
  have 2: "\<forall>F. 1/1000 \<le> p_bucket F \<and> fst (significance_of (p_bucket F)) \<noteq> ''***''"
    by (simp add: p_bucket_def significance_of_def)
  have 3: "fst (significance_of (1/1000)) = ''**''" by (simp add: significance_of_def)
  from 1 2 3 show ?thesis by blast
qed

theorem no_three_star_marker_witness:
  "\<exists>results. analyze_data [''gender'']
        [\<lparr>empathy_type = ''cognitive'', attribute_type = ''gender'',
          attribute_value = ''male'', empathy_score = 10\<rparr>,
         \<lparr>empathy_type = ''cognitive'', attribute_type = ''gender'',
          attribute_value = ''female'', empathy_score = 20\<rparr>,
         \<lparr>empathy_type = ''cognitive'', attribute_type = ''gender'',
          attribute_value = ''male'', empathy_score = 12\<rparr>,
         \<lparr>empathy_type = ''cognitive'', attribute_type = ''gender'',
          attribute_value = ''female'', empathy_score = 22\<rparr>] = Inr results
     \<and> map Significance results = [''**'']
     \<and> (\<forall>r \<in> set results. Significance r \<noteq> ''***'')"
proof -
  let ?data = "[\<lparr>empathy_type = ''cognitive'', attribute_type = ''gender'',
          attribute_value = ''male'', empathy_score = 10\<rparr>,
         \<lparr>empathy_type = ''cognitive'', attribute_type = ''gender'',
          attribute_value = ''female'', empathy_score = 20\<rparr>,
         \<lparr>empathy_type = ''cognitive'', attribute_type = ''gender'',
          attribute_value = ''male'', empathy_score = 12\<rparr>,
         \<lparr>empathy_type = ''cognitive'', attribute_type = ''gender'',
          attribute_value = ''female'', empathy_score = 22\<rparr>]"
  have ev: "map Significance (projr (analyze_data [''gender''] ?data)) = [''**'']"
    by (simp add: analyze_data_def empathy_types_def analyze_pair_def build_groups_dict_def
        calculate_f_statistic_def calculate_eta_squared_def mean_def stdev_def between_sum_def
        f_from_sums_def py_div_def p_bucket_def significance_of_def Let_def power2_eq_square)
  from no_three_star_marker [of "[''gender'']" ?data] obtain results where
    a: "analyze_data [''gender''] ?data = Inr results"
    and s: "\<forall>r \<in> set results. Significance r \<noteq> ''***''"
    by blast
  from ev a have m: "map Significance results = [''**'']" by simp
  show ?thesis by (rule exI [of _ results], rule conjI [OF a conjI [OF m s]])
qed

section \<open>Loading the rows\<close>

lemma load_rows_without_None:
  assumes "\<forall>row \<in> set reader. row ''empathy_score'' \<noteq> Some PNone"
  shows "\<exists>rows. load_rows float_of_str reader data = Inr rows"
  using assms
proof (induction reader arbitrary: data)
  case Nil
  show ?case by simp
next
  case (Cons row reader)
  then show ?case by (auto split: option.splits pyval.splits)
qed

text \<open>
  Claim C8.  The claim holds for rows whose score is missing as a key or does not parse,
  but not for a line that is shorter than the header: the reader fills the missing score
  with \<open>None\<close>, \<open>float(None)\<close> raises \<open>TypeError\<close>, and \<open>load_data\<close> raises instead of
  dropping the row.  Here the file is the header \<open>empathy_type,empathy_score\<close> followed by
  the line \<open>affective\<close>, and the result is the error whatever \<open>float\<close> parses.
\<close>

theorem load_data_short_line:
  "load_data float_of_str [''empathy_type'', ''empathy_score''] [[''affective'']]
     = Inl TypeError"
  by (simp add: load_data_def dict_reader_def dict_row_def)

section \<open>The derived score\<close>

text \<open>
  Claim C3.  For every row the derived score is
  second\_person * 1.5 + negative\_emotion * 1.0 + (cognitive\_processes + insight) * 1.2
  - first\_person\_singular * 2.0, and it is linear in each of the five inputs, the others
  held fixed: adding \<open>d\<close> to an input adds the coefficient of that input times \<open>d\<close>, the
  coefficients being 1.5, 1.0, 1.2, 1.2 and -2.0.
\<close>

theorem new_empathy_score_linear:
  "map new_empathy_score (calculate_new_empathy_score df) =
     map (\<lambda>row. second_person row * 1.5 + negative_emotion row * 1.0
                 + (cognitive_processes row + insight row) * 1.2
                 - first_person_singular row * 2.0) df
   \<and> new_empathy_score (score_row (row\<lparr>second_person := x + d\<rparr>)) =
       new_empathy_score (score_row (row\<lparr>second_person := x\<rparr>)) + 1.5 * d
   \<and> new_empathy_score (score_row (row\<lparr>negative_emotion := x + d\<rparr>)) =
       new_empathy_score (score_row (row\<lparr>negative_emotion := x\<rparr>)) + 1.0 * d
   \<and> new_empathy_score (score_row (row\<lparr>cognitive_processes := x + d\<rparr>)) =
       new_empathy_score (score_row (row\<lparr>cognitive_processes := x\<rparr>)) + 1.2 * d
   \<and> new_empathy_score (score_row (row\<lparr>insight := x + d\<rparr>)) =
       new_empathy_score (score_row (row\<lparr>insight := x\<rparr>)) + 1.2 * d
   \<and> new_empathy_score (score_row (row\<lparr>first_person_singular := x + d\<rparr>)) =
       new_empathy_score (score_row (row\<lparr>first_person_singular := x\<rparr>)) + (- 2.0) * d"
  by (simp add: calculate_new_empathy_score_def score_row_def algebra_simps)

end
